theory Spec2Isabelle
  imports
    Main
    "HOL-Library.Char_ord"
    "HOL-Library.List_Lexorder"
    "HOL-Library.Product_Lexorder"
    "HOL-Library.Multiset"
begin

section \<open>FDIC Bank Explorer: the dashboard callbacks of \<^verbatim>\<open>fdic_dashboard.py\<close>\<close>

text \<open>
  The dashboard keeps two tables read once from CSV files, \<^verbatim>\<open>institutions\<close> and
  \<^verbatim>\<open>locations\<close>, and a set of callbacks that recompute one view each from the
  values of the page's components. The callbacks read the tables as globals; here every
  callback takes the tables it reads as its first arguments.
\<close>

subsection \<open>Python values\<close>

text \<open>
  A cell of a table is the text read from the CSV file, or \<open>None\<close> where pandas holds
  \<^verbatim>\<open>NaN\<close> (an empty field). No callback modelled here computes with a number of a
  table, so a numeric cell is its text too.
\<close>

type_synonym cell = "string option"

text \<open>
  The value of the institution dropdown and of the two \<^verbatim>\<open>dcc.Store\<close> components is
  \<^verbatim>\<open>None\<close> or a string. \<^verbatim>\<open>if v:\<close> holds for a non-empty string only.
\<close>

definition truthy :: "string option \<Rightarrow> bool" where
  "truthy v = (case v of None \<Rightarrow> False | Some s \<Rightarrow> s \<noteq> [])"

text \<open>\<^verbatim>\<open>f"{v}"\<close> of a cell: pandas' \<^verbatim>\<open>NaN\<close> prints as \<^verbatim>\<open>nan\<close>.\<close>

definition py_str :: "cell \<Rightarrow> string" where
  "py_str v = (case v of None \<Rightarrow> ''nan'' | Some s \<Rightarrow> s)"

text \<open>\<^verbatim>\<open>f"{v}"\<close> of a store value: Python's \<^verbatim>\<open>None\<close> prints as \<^verbatim>\<open>None\<close>.\<close>

definition py_str_opt :: "string option \<Rightarrow> string" where
  "py_str_opt v = (case v of None \<Rightarrow> ''None'' | Some s \<Rightarrow> s)"

datatype py_error = IndexError

text \<open>\<^verbatim>\<open>sep.join(parts)\<close>\<close>

fun join :: "string \<Rightarrow> string list \<Rightarrow> string" where
  "join sep [] = []"
| "join sep [p] = p"
| "join sep (p # q # ps) = p @ sep @ join sep (q # ps)"

text \<open>\<^verbatim>\<open>f"{n:,}"\<close>: the decimal digits of \<open>n\<close>, in groups of three from the right.\<close>

definition digit_char :: "nat \<Rightarrow> char" where
  "digit_char d = char_of (48 + d)"

fun str_nat :: "nat \<Rightarrow> string" where
  "str_nat n = (if n < 10 then [digit_char n] else str_nat (n div 10) @ [digit_char (n mod 10)])"

fun group3 :: "string \<Rightarrow> string" where
  "group3 (a # b # c # d # ds) = a # b # c # CHR '','' # group3 (d # ds)"
| "group3 ds = ds"

definition fmt_thousands :: "nat \<Rightarrow> string" where
  "fmt_thousands n = rev (group3 (rev (str_nat n)))"

subsection \<open>The tables\<close>

text \<open>
  The columns the dashboard reads. Both tables have \<^verbatim>\<open>CERT\<close>, \<^verbatim>\<open>NAME\<close>,
  \<^verbatim>\<open>ADDRESS\<close>, \<^verbatim>\<open>CITY\<close>, \<^verbatim>\<open>STNAME\<close>, \<^verbatim>\<open>ZIP\<close>, \<^verbatim>\<open>LATITUDE\<close> and
  \<^verbatim>\<open>LONGITUDE\<close>; \<^verbatim>\<open>CERT\<close> is a string in both after \<^verbatim>\<open>astype(str)\<close>.
\<close>

record fdic_row =
  CERT :: string
  NAME :: cell
  ADDRESS :: cell
  CITY :: cell
  STNAME :: cell
  ZIP :: cell
  LATITUDE :: cell
  LONGITUDE :: cell

record institution = fdic_row +
  BKCLASS :: cell
  CHARTER :: cell

record location = fdic_row +
  OFFNAME :: cell
  COUNTY :: cell
  SERVTYPE_DESC :: cell
  MAINOFF :: cell
  ESTYMD :: cell

text \<open>\<^verbatim>\<open>series.dropna()\<close>\<close>

definition dropna :: "cell list \<Rightarrow> string list" where
  "dropna col = concat (map (\<lambda>v. case v of None \<Rightarrow> [] | Some s \<Rightarrow> [s]) col)"

text \<open>\<^verbatim>\<open>series.unique()\<close>: the distinct values, in the order of their first occurrence.\<close>

definition unique :: "'a list \<Rightarrow> 'a list" where
  "unique xs = rev (remdups (rev xs))"

text \<open>
  \<^verbatim>\<open>series.value_counts()\<close>: the number of occurrences of each value that is not
  \<^verbatim>\<open>NaN\<close>, the largest count first. Values of equal count are kept here in the order
  of their first occurrence.
\<close>

definition value_counts :: "cell list \<Rightarrow> (string \<times> nat) list" where
  "value_counts col =
     (let vs = dropna col
      in sort_key (\<lambda>vn. - int (snd vn)) (map (\<lambda>v. (v, count_list vs v)) (unique vs)))"

subsection \<open>The chart-click overrides\<close>

text \<open>
  \<^verbatim>\<open>clickData\<close> of a chart is \<^verbatim>\<open>None\<close> before any click, and afterwards a
  dictionary \<^verbatim>\<open>{"points": [...]}\<close>, which is never empty and so always true in an
  \<^verbatim>\<open>if\<close>. A point is represented by the one field the callback reads from it: \<^verbatim>\<open>x\<close>
  of a state bar, \<^verbatim>\<open>label\<close> of a pie slice, \<^verbatim>\<open>y\<close> of a county bar.
\<close>

type_synonym click_data = "string list option"

text \<open>\<^verbatim>\<open>click["points"][0][field]\<close>\<close>

definition first_point :: "string list \<Rightarrow> py_error + string" where
  "first_point points = (case points of [] \<Rightarrow> Inl IndexError | p # _ \<Rightarrow> Inr p)"

text \<open>
  \<^verbatim>\<open>update_chart_state_filter\<close>: the first argument is \<^verbatim>\<open>ctx.triggered_id\<close>, the
  id of the component whose change started the callback.
\<close>

definition update_chart_state_filter ::
  "string option \<Rightarrow> click_data \<Rightarrow> click_data \<Rightarrow> string \<Rightarrow> string option \<Rightarrow> string option
     \<Rightarrow> py_error + string option" where
  "update_chart_state_filter triggered_id bar_click pie_click dropdown_state institution
       current_state =
     (if triggered_id = Some ''state-filter'' \<or> triggered_id = Some ''institution-dropdown''
      then Inr None
      else case (triggered_id = Some ''state-bar-chart'', bar_click) of
        (True, Some points) \<Rightarrow>
          (case first_point points of
             Inl e \<Rightarrow> Inl e
           | Inr clicked_state \<Rightarrow>
               if current_state = Some clicked_state then Inr None
               else Inr (Some clicked_state))
      | _ \<Rightarrow>
          (case (triggered_id = Some ''state-pie-chart'', pie_click) of
             (True, Some points) \<Rightarrow>
               (case first_point points of
                  Inl e \<Rightarrow> Inl e
                | Inr clicked_state \<Rightarrow>
                    if current_state = Some clicked_state then Inr None
                    else Inr (Some clicked_state))
           | _ \<Rightarrow> Inr current_state))"

definition update_chart_county_filter ::
  "string option \<Rightarrow> click_data \<Rightarrow> string \<Rightarrow> string \<Rightarrow> string option \<Rightarrow> string option
     \<Rightarrow> string option \<Rightarrow> py_error + string option" where
  "update_chart_county_filter triggered_id county_click dropdown_state dropdown_county
       institution chart_state current_county =
     (if triggered_id = Some ''state-filter'' \<or> triggered_id = Some ''county-filter''
         \<or> triggered_id = Some ''institution-dropdown''
         \<or> triggered_id = Some ''chart-state-filter''
      then Inr None
      else case (triggered_id = Some ''county-bar-chart'', county_click) of
        (True, Some points) \<Rightarrow>
          (case first_point points of
             Inl e \<Rightarrow> Inl e
           | Inr clicked_county \<Rightarrow>
               if current_county = Some clicked_county then Inr None
               else Inr (Some clicked_county))
      | _ \<Rightarrow> Inr current_county)"

subsection \<open>Dropdown options\<close>

text \<open>An option of a dropdown: its label and its value.\<close>

type_synonym dropdown_option = "string \<times> string"

text \<open>\<^verbatim>\<open>update_county_options\<close> returns the options and the value of the county dropdown.\<close>

definition update_county_options ::
  "location list \<Rightarrow> string \<Rightarrow> dropdown_option list \<times> string" where
  "update_county_options locations selected_state =
     (if selected_state = ''ALL'' then ([(''All Counties'', ''ALL'')], ''ALL'')
      else
        let counties_in_state =
              sort (unique (dropna (map COUNTY
                (filter (\<lambda>r. STNAME r = Some selected_state) locations))));
            options = (''All Counties'', ''ALL'') # map (\<lambda>c. (c, c)) counties_in_state
        in (options, ''ALL''))"

text \<open>
  \<^verbatim>\<open>frame.sort_values("NAME")\<close>: ascending by name, the rows without a name last.
  Rows of equal name are kept here in the order of the table.
\<close>

definition name_key :: "cell \<Rightarrow> nat \<times> string" where
  "name_key n = (case n of None \<Rightarrow> (1, []) | Some s \<Rightarrow> (0, s))"

definition sort_values_NAME :: "institution list \<Rightarrow> institution list" where
  "sort_values_NAME frame = sort_key (\<lambda>row. name_key (NAME row)) frame"

text \<open>The dictionary the comprehension builds for one row.\<close>

definition institution_option :: "institution \<Rightarrow> dropdown_option" where
  "institution_option row = (py_str (NAME row) @ '' (CERT: '' @ CERT row @ '')'', CERT row)"


definition update_institution_options ::
  "institution list \<Rightarrow> location list \<Rightarrow> string \<Rightarrow> string \<Rightarrow> dropdown_option list" where
  "update_institution_options institutions locations selected_state selected_county =
     (let filtered_locations = locations;
          filtered_locations =
            (if selected_state \<noteq> ''ALL''
             then filter (\<lambda>r. STNAME r = Some selected_state) filtered_locations
             else filtered_locations);
          filtered_locations =
            (if selected_county \<noteq> ''ALL''
             then filter (\<lambda>r. COUNTY r = Some selected_county) filtered_locations
             else filtered_locations);
          certs_in_area = unique (map CERT filtered_locations);
          filtered_institutions =
            filter (\<lambda>i. CERT i \<in> set certs_in_area) institutions
      in map institution_option (sort_values_NAME filtered_institutions))"

subsection \<open>The institution card, the map and the state charts\<close>

text \<open>
  A figure is an empty one carrying annotations, a scatter map of rows at a zoom level
  (the centre of the map is a floating-point mean and is left out), a bar chart with a
  title, or a pie chart.
\<close>

datatype figure =
    Empty "string list"
  | Scatter "location list" nat
  | Bar string "(string \<times> nat) list"
  | Pie "(string \<times> nat) list"



subsection \<open>The county chart\<close>

text \<open>The state the county chart is restricted to: line 408 of the source.\<close>

definition active_state_filter :: "string \<Rightarrow> string option \<Rightarrow> string option" where
  "active_state_filter state_filter chart_state_filter =
     (if truthy chart_state_filter then chart_state_filter
      else if state_filter \<noteq> ''ALL'' then Some state_filter else None)"

definition update_county_chart ::
  "location list \<Rightarrow> string option \<Rightarrow> string \<Rightarrow> string option \<Rightarrow> figure" where
  "update_county_chart locations cert state_filter chart_state_filter =
     (case cert of
        None \<Rightarrow> Empty []
      | Some c \<Rightarrow>
          if c = [] then Empty []
          else
            let branches = filter (\<lambda>r. CERT r = c) locations
            in if branches = [] then Empty []
               else
                 let active = active_state_filter state_filter chart_state_filter;
                     county_data =
                       (if truthy active then filter (\<lambda>r. STNAME r = active) branches
                        else branches);
                     chart_title =
                       (if truthy active
                        then ''Branches by County ('' @ py_str_opt active @ '')''
                        else ''Branches by County (All States)'')
                 in if county_data = [] then
                      Empty [''No branches in '' @ py_str_opt active]
                    else
                      Bar chart_title (take 15 (value_counts (map COUNTY county_data))))"

subsection \<open>The branch table\<close>

text \<open>The ten columns of the table, \<^verbatim>\<open>fillna("")\<close> and \<^verbatim>\<open>to_dict("records")\<close>.\<close>

type_synonym table_record = "(string \<times> cell) list"

definition select_columns :: "location \<Rightarrow> table_record" where
  "select_columns r =
     [(''NAME'', NAME r), (''OFFNAME'', OFFNAME r), (''ADDRESS'', ADDRESS r),
      (''CITY'', CITY r), (''COUNTY'', COUNTY r), (''STNAME'', STNAME r), (''ZIP'', ZIP r),
      (''SERVTYPE_DESC'', SERVTYPE_DESC r), (''MAINOFF'', MAINOFF r),
      (''ESTYMD'', ESTYMD r)]"

definition fillna :: "table_record \<Rightarrow> table_record" where
  "fillna rec = map (\<lambda>kv. (fst kv, case snd kv of None \<Rightarrow> Some [] | Some s \<Rightarrow> Some s)) rec"

definition to_table_data :: "location list \<Rightarrow> table_record list" where
  "to_table_data table_branches = map (\<lambda>r. fillna (select_columns r)) table_branches"

definition update_branch_table ::
  "location list \<Rightarrow> string option \<Rightarrow> string \<Rightarrow> string \<Rightarrow> string option \<Rightarrow> string option
     \<Rightarrow> table_record list \<times> string" where
  "update_branch_table locations cert state_filter county_filter chart_state chart_county =
     (if \<not> truthy cert then
        if state_filter = ''ALL'' \<and> county_filter = ''ALL'' then
          ([], ''Select a state/county to view all branches, or select an institution'')
        else
          let table_branches = locations;
              filter_info_parts = [];
              table_branches =
                (if state_filter \<noteq> ''ALL''
                 then filter (\<lambda>r. STNAME r = Some state_filter) table_branches
                 else table_branches);
              filter_info_parts =
                (if state_filter \<noteq> ''ALL''
                 then filter_info_parts @ [''State: '' @ state_filter]
                 else filter_info_parts);
              table_branches =
                (if county_filter \<noteq> ''ALL''
                 then filter (\<lambda>r. COUNTY r = Some county_filter) table_branches
                 else table_branches);
              filter_info_parts =
                (if county_filter \<noteq> ''ALL''
                 then filter_info_parts @ [''County: '' @ county_filter]
                 else filter_info_parts);
              filter_info =
                ''Showing all branches in '' @ join '', '' filter_info_parts @ '' (''
                @ fmt_thousands (length table_branches) @ '' branches from all institutions)''
          in (to_table_data table_branches, filter_info)
      else
        let branches = filter (\<lambda>r. Some (CERT r) = cert) locations
        in if branches = [] then ([], [])
           else
             let table_branches = branches;
                 table_branches =
                   (if state_filter \<noteq> ''ALL''
                    then filter (\<lambda>r. STNAME r = Some state_filter) table_branches
                    else table_branches);
                 table_branches =
                   (if county_filter \<noteq> ''ALL''
                    then filter (\<lambda>r. COUNTY r = Some county_filter) table_branches
                    else table_branches);
                 filter_info_parts = [];
                 table_branches =
                   (if truthy chart_state
                    then filter (\<lambda>r. STNAME r = chart_state) table_branches
                    else table_branches);
                 filter_info_parts =
                   (if truthy chart_state
                    then filter_info_parts @ [''State: '' @ py_str_opt chart_state]
                    else filter_info_parts);
                 table_branches =
                   (if truthy chart_county
                    then filter (\<lambda>r. COUNTY r = chart_county) table_branches
                    else table_branches);
                 filter_info_parts =
                   (if truthy chart_county
                    then filter_info_parts @ [''County: '' @ py_str_opt chart_county]
                    else filter_info_parts);
                 filter_info =
                   (if filter_info_parts \<noteq> []
                    then ''Filtered by chart selection: '' @ join '', '' filter_info_parts
                         @ '' (click again to clear)''
                    else ''Click on a state or county chart to filter'')
             in (to_table_data table_branches, filter_info))"

subsection \<open>The components and the inputs of the callbacks\<close>

text \<open>
  The values of the five components the callbacks read: \<^verbatim>\<open>state-filter\<close>,
  \<^verbatim>\<open>county-filter\<close>, \<^verbatim>\<open>institution-dropdown\<close>, \<^verbatim>\<open>chart-state-filter\<close> and
  \<^verbatim>\<open>chart-county-filter\<close>.
\<close>

record filter_state =
  stateSelector :: string
  countySelector :: string
  institutionSelector :: "string option"
  chartStateOverride :: "string option"
  chartCountyOverride :: "string option"

text \<open>
  The \<^verbatim>\<open>@callback\<close> declarations: each view is its callback applied to the components
  declared as its inputs.
\<close>

definition county_chart_view :: "location list \<Rightarrow> filter_state \<Rightarrow> figure" where
  "county_chart_view locations fs =
     update_county_chart locations (institutionSelector fs) (stateSelector fs)
       (chartStateOverride fs)"

definition branch_table_view ::
  "location list \<Rightarrow> filter_state \<Rightarrow> table_record list \<times> string" where
  "branch_table_view locations fs =
     update_branch_table locations (institutionSelector fs) (stateSelector fs)
       (countySelector fs) (chartStateOverride fs) (chartCountyOverride fs)"

subsection \<open>The filters in the words of the specification\<close>

text \<open>
  A value of a row satisfies a dropdown selector when the selector is \<^verbatim>\<open>ALL\<close> or is
  the value.
\<close>

definition satisfies_selector :: "string \<Rightarrow> cell \<Rightarrow> bool" where
  "satisfies_selector sel v = (sel = ''ALL'' \<or> v = Some sel)"

text \<open>
  A value of a row satisfies a chart override when the override is unset or is the
  value. The callbacks read \<^verbatim>\<open>None\<close> and the empty string as the unset override.
\<close>

definition satisfies_override :: "string option \<Rightarrow> cell \<Rightarrow> bool" where
  "satisfies_override ov v = (if truthy ov then v = ov else True)"

text \<open>A branch matches a pair of a state and a county selector.\<close>

definition branch_matches :: "string \<Rightarrow> string \<Rightarrow> location \<Rightarrow> bool" where
  "branch_matches st co b =
     (satisfies_selector st (STNAME b) \<and> satisfies_selector co (COUNTY b))"

text \<open>An institution has at least one branch that matches the pair.\<close>

definition has_branch_in_area ::
  "location list \<Rightarrow> string \<Rightarrow> string \<Rightarrow> institution \<Rightarrow> bool" where
  "has_branch_in_area locations st co i =
     (\<exists>b \<in> set locations. CERT b = CERT i \<and> branch_matches st co b)"

text \<open>
  The county options as section 4.2 of the specification words them: \<^verbatim>\<open>ALL\<close>, then
  the sorted distinct counties of the rows whose state is the selector, of all rows when
  the selector is \<^verbatim>\<open>ALL\<close>.
\<close>

definition spec_getCounties :: "location list \<Rightarrow> string \<Rightarrow> string list" where
  "spec_getCounties locations s =
     ''ALL'' # sort (remdups (dropna (map COUNTY
       (filter (\<lambda>r. satisfies_selector s (STNAME r)) locations))))"

text \<open>
  What the table is to show of a value: the value itself, and the empty string in place
  of a missing one.
\<close>

abbreviation blank_if_missing :: "cell \<Rightarrow> cell" where
  "blank_if_missing v \<equiv> Some (case v of None \<Rightarrow> [] | Some s \<Rightarrow> s)"

text \<open>What the table is to show of a branch: its ten columns, in the order of the table.\<close>

abbreviation shown_record :: "location \<Rightarrow> (string \<times> cell) list" where
  "shown_record r \<equiv>
     [(''NAME'', blank_if_missing (NAME r)), (''OFFNAME'', blank_if_missing (OFFNAME r)),
      (''ADDRESS'', blank_if_missing (ADDRESS r)), (''CITY'', blank_if_missing (CITY r)),
      (''COUNTY'', blank_if_missing (COUNTY r)), (''STNAME'', blank_if_missing (STNAME r)),
      (''ZIP'', blank_if_missing (ZIP r)),
      (''SERVTYPE_DESC'', blank_if_missing (SERVTYPE_DESC r)),
      (''MAINOFF'', blank_if_missing (MAINOFF r)), (''ESTYMD'', blank_if_missing (ESTYMD r))]"

text \<open>The number of the branches of a list that lie in a county.\<close>

definition county_count :: "location list \<Rightarrow> string \<Rightarrow> nat" where
  "county_count branches c = length (filter (\<lambda>r. COUNTY r = Some c) branches)"

text \<open>
  A list of pairs of a county and a number is the county aggregation of a list of
  branches: every county of a branch occurs once, with the number of the branches in
  it, no other pair occurs, and the numbers descend.
\<close>

definition aggregates_by_county :: "(string \<times> nat) list \<Rightarrow> location list \<Rightarrow> bool" where
  "aggregates_by_county agg branches =
     (distinct (map fst agg) \<and> sorted (rev (map snd agg))
      \<and> list_all (\<lambda>cn. 0 < snd cn \<and> snd cn = county_count branches (fst cn)) agg
      \<and> list_all (\<lambda>r. case COUNTY r of None \<Rightarrow> True
                       | Some c \<Rightarrow> (c, county_count branches c) \<in> set agg) branches)"

text \<open>
  A figure is the county chart of a list of branches under the name of a state: the bar
  chart of the first fifteen pairs of a county aggregation of the branches, titled with
  the name, or, for no branch, the empty figure that says so.
\<close>

definition county_chart_of :: "figure \<Rightarrow> string \<Rightarrow> location list \<Rightarrow> bool" where
  "county_chart_of fig state branches =
     (if branches = [] then fig = Empty [''No branches in '' @ state]
      else (\<exists>agg. aggregates_by_county agg branches
              \<and> fig = Bar (''Branches by County ('' @ state @ '')'') (take 15 agg)))"

subsection \<open>Example tables\<close>

text \<open>
  The example of the specification: the institution of certificate 628 with three
  branches in Texas and one in Oklahoma. One more branch names a certificate that the
  institution table does not have.
\<close>

definition example_branch :: "string \<Rightarrow> cell \<Rightarrow> cell \<Rightarrow> location" where
  "example_branch cert state county =
     \<lparr>CERT = cert, NAME = Some ''Example Bank'', ADDRESS = None, CITY = Some ''Houston'',
      STNAME = state, ZIP = Some ''77001'', LATITUDE = None, LONGITUDE = None,
      OFFNAME = Some ''Main Office'', COUNTY = county, SERVTYPE_DESC = None,
      MAINOFF = Some ''1'', ESTYMD = None\<rparr>"

definition example_locations :: "location list" where
  "example_locations =
     [example_branch ''628'' (Some ''TX'') (Some ''Harris''),
      example_branch ''628'' (Some ''TX'') (Some ''Dallas''),
      example_branch ''628'' (Some ''TX'') (Some ''Harris''),
      example_branch ''628'' (Some ''OK'') (Some ''Tulsa''),
      example_branch ''999'' (Some ''NM'') (Some ''Taos'')]"

definition example_institutions :: "institution list" where
  "example_institutions =
     [\<lparr>CERT = ''628'', NAME = Some ''Example Bank'', ADDRESS = Some ''1 Main St'',
       CITY = Some ''Houston'', STNAME = Some ''TX'', ZIP = Some ''77001'',
       LATITUDE = None, LONGITUDE = None, BKCLASS = Some ''N'', CHARTER = Some ''0''\<rparr>]"

section \<open>Properties\<close>

subsection \<open>Columns\<close>

lemma set_unique: "set (unique xs) = set xs"
  by (simp add: unique_def)

lemma distinct_unique: "distinct (unique xs)"
  by (simp add: unique_def)

lemma set_dropna: "set (dropna col) = {s. Some s \<in> set col}"
  by (induction col) (auto simp: dropna_def split: option.splits)

subsection \<open>County options\<close>

text \<open>
  C2, as the code has it. For the selector \<^verbatim>\<open>ALL\<close> the county dropdown gets the
  single option \<^verbatim>\<open>ALL\<close>. For any other selector \<open>s\<close> it gets \<^verbatim>\<open>ALL\<close> followed
  by the counties of the rows whose state is \<open>s\<close>, sorted, without duplicates and
  without the missing values, each as its own label and value. In both cases the value
  of the county dropdown becomes \<^verbatim>\<open>ALL\<close>.
\<close>

theorem update_county_options_spec:
  "update_county_options locs ''ALL'' = ([(''All Counties'', ''ALL'')], ''ALL'')
   \<and> (s \<noteq> ''ALL'' \<longrightarrow>
        (\<exists>cs. update_county_options locs s
                = ((''All Counties'', ''ALL'') # map (\<lambda>c. (c, c)) cs, ''ALL'')
              \<and> sorted cs \<and> distinct cs
              \<and> set cs = {c. \<exists>r \<in> set locs. STNAME r = Some s \<and> COUNTY r = Some c}))"
proof (intro conjI impI)
  show "update_county_options locs ''ALL'' = ([(''All Counties'', ''ALL'')], ''ALL'')"
    by (simp add: update_county_options_def)
next
  assume ne: "s \<noteq> ''ALL''"
  let ?cs = "sort (unique (dropna (map COUNTY (filter (\<lambda>r. STNAME r = Some s) locs))))"
  have "set (dropna (map COUNTY (filter (\<lambda>r. STNAME r = Some s) locs)))
        = {c. \<exists>r \<in> set locs. STNAME r = Some s \<and> COUNTY r = Some c}"
    unfolding set_dropna by (auto simp: image_iff)
  then have "set ?cs = {c. \<exists>r \<in> set locs. STNAME r = Some s \<and> COUNTY r = Some c}"
    by (simp add: set_unique)
  moreover have "sorted ?cs" by simp
  moreover have "distinct ?cs" by (simp add: distinct_unique)
  moreover from ne have "update_county_options locs s
                = ((''All Counties'', ''ALL'') # map (\<lambda>c. (c, c)) ?cs, ''ALL'')"
    by (simp add: update_county_options_def Let_def)
  ultimately show "\<exists>cs. update_county_options locs s
                = ((''All Counties'', ''ALL'') # map (\<lambda>c. (c, c)) cs, ''ALL'')
              \<and> sorted cs \<and> distinct cs
              \<and> set cs = {c. \<exists>r \<in> set locs. STNAME r = Some s \<and> COUNTY r = Some c}"
    by blast
qed

text \<open>The options for Texas in the example tables.\<close>

theorem update_county_options_spec_witness:
  "''TX'' \<noteq> ''ALL''
   \<and> update_county_options example_locations ''TX''
     = ([(''All Counties'', ''ALL''), (''Dallas'', ''Dallas''), (''Harris'', ''Harris'')], ''ALL'')
   \<and> update_county_options example_locations ''ALL''
     = ([(''All Counties'', ''ALL'')], ''ALL'')"
proof -
  have ne: "''TX'' \<noteq> ''ALL''" by simp
  have ev: "update_county_options example_locations ''TX''
     = ([(''All Counties'', ''ALL''), (''Dallas'', ''Dallas''), (''Harris'', ''Harris'')], ''ALL'')"
    by code_simp
  from update_county_options_spec [of example_locations "''TX''"]
  have "update_county_options example_locations ''ALL''
     = ([(''All Counties'', ''ALL'')], ''ALL'')"
    by blast
  with ne ev show ?thesis by simp
qed

text \<open>
  C2 as stated fails for the selector \<^verbatim>\<open>ALL\<close>: the callback returns the option
  \<^verbatim>\<open>ALL\<close> alone, not the counties of all rows.
\<close>

theorem county_options_all_counterexample:
  "map snd (fst (update_county_options example_locations ''ALL'')) = [''ALL'']
   \<and> spec_getCounties example_locations ''ALL''
       = [''ALL'', ''Dallas'', ''Harris'', ''Taos'', ''Tulsa'']"
  by code_simp

subsection \<open>Institution options\<close>

lemma filtered_locations_eq:
  "(if co \<noteq> ''ALL''
    then filter (\<lambda>r. COUNTY r = Some co)
           (if st \<noteq> ''ALL'' then filter (\<lambda>r. STNAME r = Some st) locs else locs)
    else (if st \<noteq> ''ALL'' then filter (\<lambda>r. STNAME r = Some st) locs else locs))
   = filter (branch_matches st co) locs"
proof -
  have "(if co \<noteq> ''ALL''
    then filter (\<lambda>r. COUNTY r = Some co)
           (if st \<noteq> ''ALL'' then filter (\<lambda>r. STNAME r = Some st) locs else locs)
    else (if st \<noteq> ''ALL'' then filter (\<lambda>r. STNAME r = Some st) locs else locs))
   = filter (\<lambda>r. co \<noteq> ''ALL'' \<longrightarrow> COUNTY r = Some co)
       (filter (\<lambda>r. st \<noteq> ''ALL'' \<longrightarrow> STNAME r = Some st) locs)"
    by simp
  also have "\<dots> = filter (branch_matches st co) locs"
    unfolding filter_filter
    by (rule filter_cong [OF refl]) (auto simp: branch_matches_def satisfies_selector_def)
  finally show ?thesis .
qed

lemma cert_in_area:
  "CERT i \<in> CERT ` set (filter (branch_matches st co) locs)
     \<longleftrightarrow> has_branch_in_area locs st co i"
  by (force simp: has_branch_in_area_def)

lemma institution_options_rows:
  "update_institution_options insts locs st co
     = map institution_option
         (sort_values_NAME (filter (has_branch_in_area locs st co) insts))"
  unfolding update_institution_options_def Let_def filtered_locations_eq
  by (simp only: set_unique set_map cert_in_area)

text \<open>
  C7, as the code has it. The options are those of the institutions of the institution
  table that have at least one branch matching the state and the county selector
  (\<^verbatim>\<open>ALL\<close> matching every branch), each formatted as its name, \<^verbatim>\<open>(CERT: \<close>, its
  certificate and \<^verbatim>\<open>)\<close>, in ascending order of name. The result is empty exactly when
  no institution of the table has a matching branch; so it is empty when no branch
  matches.
\<close>

theorem institution_options_spec:
  "(\<exists>rows. update_institution_options insts locs st co = map institution_option rows
       \<and> mset rows = mset (filter (has_branch_in_area locs st co) insts)
       \<and> sorted (map (\<lambda>row. name_key (NAME row)) rows))
   \<and> (update_institution_options insts locs st co = []
        \<longleftrightarrow> filter (has_branch_in_area locs st co) insts = [])
   \<and> (filter (branch_matches st co) locs = []
        \<longrightarrow> update_institution_options insts locs st co = [])"
proof (intro conjI impI)
  let ?rows = "sort_values_NAME (filter (has_branch_in_area locs st co) insts)"
  have "update_institution_options insts locs st co = map institution_option ?rows"
    by (rule institution_options_rows)
  moreover have "mset ?rows = mset (filter (has_branch_in_area locs st co) insts)"
    by (simp add: sort_values_NAME_def)
  moreover have "sorted (map (\<lambda>row. name_key (NAME row)) ?rows)"
    by (simp add: sort_values_NAME_def)
  ultimately show "\<exists>rows. update_institution_options insts locs st co
        = map institution_option rows
       \<and> mset rows = mset (filter (has_branch_in_area locs st co) insts)
       \<and> sorted (map (\<lambda>row. name_key (NAME row)) rows)"
    by blast
next
  have "sort_values_NAME (filter (has_branch_in_area locs st co) insts) = []
        \<longleftrightarrow> filter (has_branch_in_area locs st co) insts = []"
    by (metis length_sort sort_values_NAME_def length_0_conv)
  then show "update_institution_options insts locs st co = []
        \<longleftrightarrow> filter (has_branch_in_area locs st co) insts = []"
    by (simp add: institution_options_rows)
next
  assume "filter (branch_matches st co) locs = []"
  then have "\<And>i. \<not> has_branch_in_area locs st co i"
    by (auto simp: has_branch_in_area_def filter_empty_conv)
  then show "update_institution_options insts locs st co = []"
    by (simp add: institution_options_rows sort_values_NAME_def)
qed

text \<open>
  No branch of the example tables is in Taos, Texas;
  the example bank has branches in Harris, Texas.
\<close>

theorem institution_options_spec_witness:
  "filter (branch_matches ''TX'' ''Taos'') example_locations = []
   \<and> update_institution_options example_institutions example_locations ''TX'' ''Taos'' = []
   \<and> filter (has_branch_in_area example_locations ''TX'' ''Harris'') example_institutions
       = example_institutions
   \<and> update_institution_options example_institutions example_locations ''TX'' ''Harris''
       = [(''Example Bank (CERT: 628)'', ''628'')]"
proof -
  have none: "filter (branch_matches ''TX'' ''Taos'') example_locations = []"
    by code_simp
  have some: "filter (has_branch_in_area example_locations ''TX'' ''Harris'')
                example_institutions = example_institutions"
    by code_simp
  have opts: "update_institution_options example_institutions example_locations ''TX''
                ''Harris'' = [(''Example Bank (CERT: 628)'', ''628'')]"
    by code_simp
  from none institution_options_spec
         [of example_institutions example_locations "''TX''" "''Taos''"]
  have "update_institution_options example_institutions example_locations ''TX'' ''Taos''
          = []"
    by blast
  with none some opts show ?thesis by simp
qed

text \<open>
  C7 as stated fails in its last part: a branch matches New Mexico and Taos, and the
  result is empty, because the certificate of that branch names no institution of the
  table.
\<close>

theorem institution_options_orphan_counterexample:
  "update_institution_options example_institutions example_locations ''NM'' ''Taos'' = []
   \<and> filter (branch_matches ''NM'' ''Taos'') example_locations
     = [example_branch ''999'' (Some ''NM'') (Some ''Taos'')]"
  by code_simp

subsection \<open>The institution card\<close>





subsection \<open>The branch table\<close>

lemma filter_conj_empty: "filter P xs = [] \<Longrightarrow> filter (\<lambda>x. P x \<and> Q x) xs = []"
  by (simp add: filter_empty_conv)

lemma cond_filter: "(if b then filter P xs else xs) = filter (\<lambda>x. b \<longrightarrow> P x) xs"
  by simp

lemma table_data_cong:
  "(\<And>x. x \<in> set xs \<Longrightarrow> P x = Q x) \<Longrightarrow>
   to_table_data (filter P xs) = to_table_data (filter Q xs)"
  by (simp cong: filter_cong)

lemma selected_rows:
  assumes "truthy cert"
  shows "fst (update_branch_table locs cert st co cs cc)
     = to_table_data (filter (\<lambda>r. Some (CERT r) = cert
          \<and> satisfies_selector st (STNAME r) \<and> satisfies_selector co (COUNTY r)
          \<and> satisfies_override cs (STNAME r) \<and> satisfies_override cc (COUNTY r)) locs)"
    (is "_ = to_table_data (filter ?P locs)")
proof (cases "filter (\<lambda>r. Some (CERT r) = cert) locs = []")
  case True
  then have "filter ?P locs = []"
    by (rule filter_conj_empty)
  with True assms show ?thesis
    by (simp add: update_branch_table_def to_table_data_def)
next
  case False
  with assms have "fst (update_branch_table locs cert st co cs cc)
     = to_table_data (filter (\<lambda>r. truthy cc \<longrightarrow> COUNTY r = cc)
          (filter (\<lambda>r. truthy cs \<longrightarrow> STNAME r = cs)
            (filter (\<lambda>r. co \<noteq> ''ALL'' \<longrightarrow> COUNTY r = Some co)
              (filter (\<lambda>r. st \<noteq> ''ALL'' \<longrightarrow> STNAME r = Some st)
                (filter (\<lambda>r. Some (CERT r) = cert) locs)))))"
    by (simp add: update_branch_table_def Let_def)
  also have "\<dots> = to_table_data (filter ?P locs)"
    unfolding filter_filter
    by (rule table_data_cong) (auto simp: satisfies_selector_def satisfies_override_def)
  finally show ?thesis .
qed

lemma unselected_rows:
  assumes "\<not> truthy cert"
  shows "fst (update_branch_table locs cert st co cs cc)
     = (if st = ''ALL'' \<and> co = ''ALL'' then []
        else to_table_data (filter (\<lambda>r. satisfies_selector st (STNAME r)
               \<and> satisfies_selector co (COUNTY r)) locs))"
proof -
  from assms have "fst (update_branch_table locs cert st co cs cc)
     = (if st = ''ALL'' \<and> co = ''ALL'' then []
        else to_table_data (filter (\<lambda>r. co \<noteq> ''ALL'' \<longrightarrow> COUNTY r = Some co)
          (filter (\<lambda>r. st \<noteq> ''ALL'' \<longrightarrow> STNAME r = Some st) locs)))"
    by (simp add: update_branch_table_def Let_def)
  also have "to_table_data (filter (\<lambda>r. co \<noteq> ''ALL'' \<longrightarrow> COUNTY r = Some co)
          (filter (\<lambda>r. st \<noteq> ''ALL'' \<longrightarrow> STNAME r = Some st) locs))
     = to_table_data (filter (\<lambda>r. satisfies_selector st (STNAME r)
               \<and> satisfies_selector co (COUNTY r)) locs)"
    unfolding filter_filter
    by (rule table_data_cong) (auto simp: satisfies_selector_def)
  finally show ?thesis .
qed

lemma unselected_ignores_overrides:
  assumes "\<not> truthy cert"
  shows "update_branch_table locs cert st co cs cc = update_branch_table locs cert st co cs' cc'"
  using assms by (simp add: update_branch_table_def)

lemma to_table_data_shown: "to_table_data xs = map shown_record xs"
  by (simp add: to_table_data_def fillna_def select_columns_def split: option.split)

text \<open>
  C3. With an institution selected, the rows of the table are the records, ten columns
  each with the empty string for a missing value, of exactly the branches of the
  institution that satisfy the state dropdown, the county dropdown, the state override
  and the county override together, in the order of the table of branches. With no
  institution selected, the two overrides change nothing of the result, and the rows are
  the records of the branches that satisfy the two dropdowns, or no row at all when both
  dropdowns are \<^verbatim>\<open>ALL\<close>.
\<close>

theorem branch_table_rows:
  "(truthy cert \<longrightarrow>
      fst (update_branch_table locs cert st co cs cc)
        = map shown_record (filter (\<lambda>r. Some (CERT r) = cert
            \<and> satisfies_selector st (STNAME r) \<and> satisfies_selector co (COUNTY r)
            \<and> satisfies_override cs (STNAME r) \<and> satisfies_override cc (COUNTY r)) locs))
   \<and> (\<not> truthy cert \<longrightarrow>
        update_branch_table locs cert st co cs cc
          = update_branch_table locs cert st co cs' cc'
        \<and> fst (update_branch_table locs cert st co cs cc)
          = (if st = ''ALL'' \<and> co = ''ALL'' then []
             else map shown_record (filter (\<lambda>r. satisfies_selector st (STNAME r)
                    \<and> satisfies_selector co (COUNTY r)) locs)))"
  using selected_rows [of cert locs st co cs cc] unselected_rows [of cert locs st co cs cc]
    unselected_ignores_overrides [of cert locs st co cs cc cs' cc']
  unfolding to_table_data_shown by blast

text \<open>
  The example bank with the state dropdown on Texas and the county override on Harris:
  two rows. No institution with the state dropdown on Texas and both overrides on
  Oklahoma: the three rows of Texas, as without the overrides.
\<close>

theorem branch_table_rows_witness:
  "truthy (Some ''628'') \<and> \<not> truthy None
   \<and> fst (update_branch_table example_locations (Some ''628'') ''TX'' ''ALL'' None
            (Some ''Harris''))
     = [[(''NAME'', Some ''Example Bank''), (''OFFNAME'', Some ''Main Office''),
         (''ADDRESS'', Some []), (''CITY'', Some ''Houston''),
         (''COUNTY'', Some ''Harris''), (''STNAME'', Some ''TX''),
         (''ZIP'', Some ''77001''), (''SERVTYPE_DESC'', Some []),
         (''MAINOFF'', Some ''1''), (''ESTYMD'', Some [])],
        [(''NAME'', Some ''Example Bank''), (''OFFNAME'', Some ''Main Office''),
         (''ADDRESS'', Some []), (''CITY'', Some ''Houston''),
         (''COUNTY'', Some ''Harris''), (''STNAME'', Some ''TX''),
         (''ZIP'', Some ''77001''), (''SERVTYPE_DESC'', Some []),
         (''MAINOFF'', Some ''1''), (''ESTYMD'', Some [])]]
   \<and> fst (update_branch_table example_locations None ''TX'' ''ALL'' (Some ''OK'')
            (Some ''Tulsa''))
     = [[(''NAME'', Some ''Example Bank''), (''OFFNAME'', Some ''Main Office''),
         (''ADDRESS'', Some []), (''CITY'', Some ''Houston''),
         (''COUNTY'', Some ''Harris''), (''STNAME'', Some ''TX''),
         (''ZIP'', Some ''77001''), (''SERVTYPE_DESC'', Some []),
         (''MAINOFF'', Some ''1''), (''ESTYMD'', Some [])],
        [(''NAME'', Some ''Example Bank''), (''OFFNAME'', Some ''Main Office''),
         (''ADDRESS'', Some []), (''CITY'', Some ''Houston''),
         (''COUNTY'', Some ''Dallas''), (''STNAME'', Some ''TX''),
         (''ZIP'', Some ''77001''), (''SERVTYPE_DESC'', Some []),
         (''MAINOFF'', Some ''1''), (''ESTYMD'', Some [])],
        [(''NAME'', Some ''Example Bank''), (''OFFNAME'', Some ''Main Office''),
         (''ADDRESS'', Some []), (''CITY'', Some ''Houston''),
         (''COUNTY'', Some ''Harris''), (''STNAME'', Some ''TX''),
         (''ZIP'', Some ''77001''), (''SERVTYPE_DESC'', Some []),
         (''MAINOFF'', Some ''1''), (''ESTYMD'', Some [])]]
   \<and> update_branch_table example_locations None ''TX'' ''ALL'' (Some ''OK'') (Some ''Tulsa'')
     = update_branch_table example_locations None ''TX'' ''ALL'' None None"
proof -
  have sel: "truthy (Some ''628'')" and unsel: "\<not> truthy None"
    by (simp_all add: truthy_def)
  have f1: "map shown_record (filter (\<lambda>r. Some (CERT r) = Some ''628''
            \<and> satisfies_selector ''TX'' (STNAME r) \<and> satisfies_selector ''ALL'' (COUNTY r)
            \<and> satisfies_override None (STNAME r)
            \<and> satisfies_override (Some ''Harris'') (COUNTY r)) example_locations)
     = [[(''NAME'', Some ''Example Bank''), (''OFFNAME'', Some ''Main Office''),
         (''ADDRESS'', Some []), (''CITY'', Some ''Houston''),
         (''COUNTY'', Some ''Harris''), (''STNAME'', Some ''TX''),
         (''ZIP'', Some ''77001''), (''SERVTYPE_DESC'', Some []),
         (''MAINOFF'', Some ''1''), (''ESTYMD'', Some [])],
        [(''NAME'', Some ''Example Bank''), (''OFFNAME'', Some ''Main Office''),
         (''ADDRESS'', Some []), (''CITY'', Some ''Houston''),
         (''COUNTY'', Some ''Harris''), (''STNAME'', Some ''TX''),
         (''ZIP'', Some ''77001''), (''SERVTYPE_DESC'', Some []),
         (''MAINOFF'', Some ''1''), (''ESTYMD'', Some [])]]"
    by code_simp
  have f2: "(if ''TX'' = ''ALL'' \<and> ''ALL'' = ''ALL'' then []
             else map shown_record (filter (\<lambda>r. satisfies_selector ''TX'' (STNAME r)
                    \<and> satisfies_selector ''ALL'' (COUNTY r)) example_locations))
     = [[(''NAME'', Some ''Example Bank''), (''OFFNAME'', Some ''Main Office''),
         (''ADDRESS'', Some []), (''CITY'', Some ''Houston''),
         (''COUNTY'', Some ''Harris''), (''STNAME'', Some ''TX''),
         (''ZIP'', Some ''77001''), (''SERVTYPE_DESC'', Some []),
         (''MAINOFF'', Some ''1''), (''ESTYMD'', Some [])],
        [(''NAME'', Some ''Example Bank''), (''OFFNAME'', Some ''Main Office''),
         (''ADDRESS'', Some []), (''CITY'', Some ''Houston''),
         (''COUNTY'', Some ''Dallas''), (''STNAME'', Some ''TX''),
         (''ZIP'', Some ''77001''), (''SERVTYPE_DESC'', Some []),
         (''MAINOFF'', Some ''1''), (''ESTYMD'', Some [])],
        [(''NAME'', Some ''Example Bank''), (''OFFNAME'', Some ''Main Office''),
         (''ADDRESS'', Some []), (''CITY'', Some ''Houston''),
         (''COUNTY'', Some ''Harris''), (''STNAME'', Some ''TX''),
         (''ZIP'', Some ''77001''), (''SERVTYPE_DESC'', Some []),
         (''MAINOFF'', Some ''1''), (''ESTYMD'', Some [])]]"
    by code_simp
  from sel branch_table_rows
         [of "Some ''628''" example_locations "''TX''" "''ALL''" None "Some ''Harris''"]
  have r1: "fst (update_branch_table example_locations (Some ''628'') ''TX'' ''ALL'' None
            (Some ''Harris''))
     = map shown_record (filter (\<lambda>r. Some (CERT r) = Some ''628''
            \<and> satisfies_selector ''TX'' (STNAME r) \<and> satisfies_selector ''ALL'' (COUNTY r)
            \<and> satisfies_override None (STNAME r)
            \<and> satisfies_override (Some ''Harris'') (COUNTY r)) example_locations)"
    by blast
  note th = branch_table_rows
         [of None example_locations "''TX''" "''ALL''" "Some ''OK''" "Some ''Tulsa''" None None]
  from unsel th
  have r2: "fst (update_branch_table example_locations None ''TX'' ''ALL'' (Some ''OK'')
            (Some ''Tulsa''))
     = (if ''TX'' = ''ALL'' \<and> ''ALL'' = ''ALL'' then []
             else map shown_record (filter (\<lambda>r. satisfies_selector ''TX'' (STNAME r)
                    \<and> satisfies_selector ''ALL'' (COUNTY r)) example_locations))"
    by blast
  from unsel th
  have r3: "update_branch_table example_locations None ''TX'' ''ALL'' (Some ''OK'')
              (Some ''Tulsa'')
     = update_branch_table example_locations None ''TX'' ''ALL'' None None"
    by blast
  show ?thesis
    by (intro conjI sel unsel r1 [unfolded f1] r2 [unfolded f2] r3)
qed

text \<open>
  C4. With no institution selected and both dropdowns on \<^verbatim>\<open>ALL\<close>, the table has no
  row and the message asks for a state, a county or an institution.
\<close>

theorem branch_table_prompt:
  "\<not> truthy cert \<Longrightarrow>
   update_branch_table locs cert ''ALL'' ''ALL'' cs cc
     = ([], ''Select a state/county to view all branches, or select an institution'')"
  by (simp add: update_branch_table_def)

text \<open>The example tables have five branches, and none is shown.\<close>

theorem branch_table_prompt_witness:
  "\<not> truthy None
   \<and> update_branch_table example_locations None ''ALL'' ''ALL'' None (Some ''Harris'')
     = ([], ''Select a state/county to view all branches, or select an institution'')
   \<and> length example_locations = 5"
proof -
  have unsel: "\<not> truthy None" by (simp add: truthy_def)
  have "length example_locations = 5" by (simp add: example_locations_def)
  with unsel branch_table_prompt [OF unsel, of example_locations None "Some ''Harris''"]
  show ?thesis by simp
qed

text \<open>
  C10. The rows of the table are the records of the branches the table shows, and a
  record holds, for each of the ten columns, the value of the branch, or the empty string
  where the branch has no value. So no value of a row of the table is missing.
\<close>

theorem branch_table_no_null:
  "fst (update_branch_table locs cert st co cs cc)
     = map shown_record
         (if truthy cert
          then filter (\<lambda>r. Some (CERT r) = cert
                 \<and> satisfies_selector st (STNAME r) \<and> satisfies_selector co (COUNTY r)
                 \<and> satisfies_override cs (STNAME r) \<and> satisfies_override cc (COUNTY r)) locs
          else if st = ''ALL'' \<and> co = ''ALL'' then []
          else filter (\<lambda>r. satisfies_selector st (STNAME r)
                 \<and> satisfies_selector co (COUNTY r)) locs)
   \<and> (\<forall>row \<in> set (fst (update_branch_table locs cert st co cs cc)).
        \<forall>kv \<in> set row. snd kv \<noteq> None)"
proof
  show rows: "fst (update_branch_table locs cert st co cs cc)
     = map shown_record
         (if truthy cert
          then filter (\<lambda>r. Some (CERT r) = cert
                 \<and> satisfies_selector st (STNAME r) \<and> satisfies_selector co (COUNTY r)
                 \<and> satisfies_override cs (STNAME r) \<and> satisfies_override cc (COUNTY r)) locs
          else if st = ''ALL'' \<and> co = ''ALL'' then []
          else filter (\<lambda>r. satisfies_selector st (STNAME r)
                 \<and> satisfies_selector co (COUNTY r)) locs)"
    using selected_rows [of cert locs st co cs cc] unselected_rows [of cert locs st co cs cc]
    by (simp add: to_table_data_shown)
  show "\<forall>row \<in> set (fst (update_branch_table locs cert st co cs cc)).
        \<forall>kv \<in> set row. snd kv \<noteq> None"
    unfolding rows by auto
qed

text \<open>
  The Tulsa branch has no address, no service type and no date: its row, reached without
  an institution and with one, has the empty string in these three places.
\<close>

theorem branch_table_no_null_witness:
  "ADDRESS (example_branch ''628'' (Some ''OK'') (Some ''Tulsa'')) = None
   \<and> SERVTYPE_DESC (example_branch ''628'' (Some ''OK'') (Some ''Tulsa'')) = None
   \<and> ESTYMD (example_branch ''628'' (Some ''OK'') (Some ''Tulsa'')) = None
   \<and> fst (update_branch_table example_locations None ''OK'' ''ALL'' None None)
     = [[(''NAME'', Some ''Example Bank''), (''OFFNAME'', Some ''Main Office''),
         (''ADDRESS'', Some []), (''CITY'', Some ''Houston''),
         (''COUNTY'', Some ''Tulsa''), (''STNAME'', Some ''OK''),
         (''ZIP'', Some ''77001''), (''SERVTYPE_DESC'', Some []),
         (''MAINOFF'', Some ''1''), (''ESTYMD'', Some [])]]
   \<and> fst (update_branch_table example_locations (Some ''628'') ''ALL'' ''ALL'' (Some ''OK'')
            None)
     = [[(''NAME'', Some ''Example Bank''), (''OFFNAME'', Some ''Main Office''),
         (''ADDRESS'', Some []), (''CITY'', Some ''Houston''),
         (''COUNTY'', Some ''Tulsa''), (''STNAME'', Some ''OK''),
         (''ZIP'', Some ''77001''), (''SERVTYPE_DESC'', Some []),
         (''MAINOFF'', Some ''1''), (''ESTYMD'', Some [])]]
   \<and> list_all (\<lambda>row. list_all (\<lambda>kv. snd kv \<noteq> None) row)
       (fst (update_branch_table example_locations None ''OK'' ''ALL'' None None))"
proof -
  have a: "ADDRESS (example_branch ''628'' (Some ''OK'') (Some ''Tulsa'')) = None"
    and b: "SERVTYPE_DESC (example_branch ''628'' (Some ''OK'') (Some ''Tulsa'')) = None"
    and c: "ESTYMD (example_branch ''628'' (Some ''OK'') (Some ''Tulsa'')) = None"
    by (simp_all add: example_branch_def)
  have e1: "map shown_record
         (if truthy None
          then filter (\<lambda>r. Some (CERT r) = None
                 \<and> satisfies_selector ''OK'' (STNAME r) \<and> satisfies_selector ''ALL'' (COUNTY r)
                 \<and> satisfies_override None (STNAME r) \<and> satisfies_override None (COUNTY r))
                 example_locations
          else if ''OK'' = ''ALL'' \<and> ''ALL'' = ''ALL'' then []
          else filter (\<lambda>r. satisfies_selector ''OK'' (STNAME r)
                 \<and> satisfies_selector ''ALL'' (COUNTY r)) example_locations)
     = [[(''NAME'', Some ''Example Bank''), (''OFFNAME'', Some ''Main Office''),
         (''ADDRESS'', Some []), (''CITY'', Some ''Houston''),
         (''COUNTY'', Some ''Tulsa''), (''STNAME'', Some ''OK''),
         (''ZIP'', Some ''77001''), (''SERVTYPE_DESC'', Some []),
         (''MAINOFF'', Some ''1''), (''ESTYMD'', Some [])]]"
    by code_simp
  have e2: "map shown_record
         (if truthy (Some ''628'')
          then filter (\<lambda>r. Some (CERT r) = Some ''628''
                 \<and> satisfies_selector ''ALL'' (STNAME r) \<and> satisfies_selector ''ALL'' (COUNTY r)
                 \<and> satisfies_override (Some ''OK'') (STNAME r)
                 \<and> satisfies_override None (COUNTY r)) example_locations
          else if ''ALL'' = ''ALL'' \<and> ''ALL'' = ''ALL'' then []
          else filter (\<lambda>r. satisfies_selector ''ALL'' (STNAME r)
                 \<and> satisfies_selector ''ALL'' (COUNTY r)) example_locations)
     = [[(''NAME'', Some ''Example Bank''), (''OFFNAME'', Some ''Main Office''),
         (''ADDRESS'', Some []), (''CITY'', Some ''Houston''),
         (''COUNTY'', Some ''Tulsa''), (''STNAME'', Some ''OK''),
         (''ZIP'', Some ''77001''), (''SERVTYPE_DESC'', Some []),
         (''MAINOFF'', Some ''1''), (''ESTYMD'', Some [])]]"
    by code_simp
  note t1 = branch_table_no_null [of example_locations None "''OK''" "''ALL''" None None]
  note t2 = branch_table_no_null
              [of example_locations "Some ''628''" "''ALL''" "''ALL''" "Some ''OK''" None]
  from t1 have r1: "fst (update_branch_table example_locations None ''OK'' ''ALL'' None None)
     = [[(''NAME'', Some ''Example Bank''), (''OFFNAME'', Some ''Main Office''),
         (''ADDRESS'', Some []), (''CITY'', Some ''Houston''),
         (''COUNTY'', Some ''Tulsa''), (''STNAME'', Some ''OK''),
         (''ZIP'', Some ''77001''), (''SERVTYPE_DESC'', Some []),
         (''MAINOFF'', Some ''1''), (''ESTYMD'', Some [])]]"
    unfolding e1 by (rule conjunct1)
  from t2 have r2: "fst (update_branch_table example_locations (Some ''628'') ''ALL'' ''ALL''
            (Some ''OK'') None)
     = [[(''NAME'', Some ''Example Bank''), (''OFFNAME'', Some ''Main Office''),
         (''ADDRESS'', Some []), (''CITY'', Some ''Houston''),
         (''COUNTY'', Some ''Tulsa''), (''STNAME'', Some ''OK''),
         (''ZIP'', Some ''77001''), (''SERVTYPE_DESC'', Some []),
         (''MAINOFF'', Some ''1''), (''ESTYMD'', Some [])]]"
    unfolding e2 by (rule conjunct1)
  from t1 have r3: "list_all (\<lambda>row. list_all (\<lambda>kv. snd kv \<noteq> None) row)
       (fst (update_branch_table example_locations None ''OK'' ''ALL'' None None))"
    unfolding list_all_iff by (rule conjunct2)
  show ?thesis
    by (intro conjI a b c r1 r2 r3)
qed

subsection \<open>Chart-click overrides\<close>

text \<open>
  C5. A click carrying the value \<open>v\<close> on the state bar chart, on the state pie chart or
  on the county bar chart sets the chart's override to \<open>v\<close> when the override is unset or
  holds another value, and unsets it when it already holds \<open>v\<close>; so a first click from
  the unset override gives \<open>v\<close> and a second click on \<open>v\<close> gives the unset override
  again.
\<close>

theorem chart_click_toggles:
  "update_chart_state_filter (Some ''state-bar-chart'') (Some (v # ps)) pie ds inst cur
     = Inr (if cur = Some v then None else Some v)
   \<and> update_chart_state_filter (Some ''state-pie-chart'') bar (Some (v # ps)) ds inst cur
     = Inr (if cur = Some v then None else Some v)
   \<and> update_chart_county_filter (Some ''county-bar-chart'') (Some (v # ps)) ds dc inst cs cur
     = Inr (if cur = Some v then None else Some v)
   \<and> update_chart_state_filter (Some ''state-bar-chart'') (Some (v # ps)) pie ds inst None
     = Inr (Some v)
   \<and> update_chart_state_filter (Some ''state-bar-chart'') (Some (v # ps)) pie ds inst (Some v)
     = Inr None
   \<and> update_chart_state_filter (Some ''state-pie-chart'') bar (Some (v # ps)) ds inst None
     = Inr (Some v)
   \<and> update_chart_state_filter (Some ''state-pie-chart'') bar (Some (v # ps)) ds inst (Some v)
     = Inr None
   \<and> update_chart_county_filter (Some ''county-bar-chart'') (Some (v # ps)) ds dc inst cs None
     = Inr (Some v)
   \<and> update_chart_county_filter (Some ''county-bar-chart'') (Some (v # ps)) ds dc inst cs
       (Some v)
     = Inr None"
  by (simp add: update_chart_state_filter_def update_chart_county_filter_def
      first_point_def)

text \<open>
  C6. A change of the state dropdown or of the institution dropdown unsets the state
  override; a change of the state dropdown, of the county dropdown, of the institution
  dropdown or of the state override unsets the county override. A change of the state
  dropdown therefore unsets both.
\<close>

theorem upstream_change_clears_overrides:
  "update_chart_state_filter (Some ''state-filter'') bar pie ds inst cur = Inr None
   \<and> update_chart_state_filter (Some ''institution-dropdown'') bar pie ds inst cur = Inr None
   \<and> update_chart_county_filter (Some ''state-filter'') click ds dc inst cs cur' = Inr None
   \<and> update_chart_county_filter (Some ''county-filter'') click ds dc inst cs cur' = Inr None
   \<and> update_chart_county_filter (Some ''institution-dropdown'') click ds dc inst cs cur'
     = Inr None
   \<and> update_chart_county_filter (Some ''chart-state-filter'') click ds dc inst cs cur'
     = Inr None"
  by (simp add: update_chart_state_filter_def update_chart_county_filter_def)

subsection \<open>The county chart\<close>

lemma count_dropna:
  "count_list (dropna (map COUNTY d)) c = county_count d c"
  by (induction d) (auto simp: dropna_def county_count_def split: option.splits)

lemma sorted_desc:
  "sorted (map (\<lambda>x. - int (f x)) xs) \<Longrightarrow> sorted (rev (map f xs))"
  by (induction xs) (auto simp: sorted_append)

lemma distinct_fst_sort_key:
  "distinct (map fst (sort_key k xs)) = distinct (map fst xs)"
proof -
  have "mset (map fst (sort_key k xs)) = mset (map fst xs)"
    by simp
  then show ?thesis by (rule mset_eq_imp_distinct_iff)
qed

lemma value_counts_aggregates:
  "aggregates_by_county (value_counts (map COUNTY d)) d"
proof -
  let ?vs = "dropna (map COUNTY d)"
  let ?xs = "map (\<lambda>v. (v, count_list ?vs v)) (unique ?vs)"
  have vc: "value_counts (map COUNTY d) = sort_key (\<lambda>vn. - int (snd vn)) ?xs"
    by (simp add: value_counts_def Let_def)
  have "map fst ?xs = unique ?vs"
    by (simp add: comp_def)
  then have d: "distinct (map fst (value_counts (map COUNTY d)))"
    by (simp add: vc distinct_fst_sort_key distinct_unique del: map_map)
  have s: "sorted (rev (map snd (value_counts (map COUNTY d))))"
    unfolding vc by (rule sorted_desc) simp
  have set_vc: "set (value_counts (map COUNTY d))
      = (\<lambda>v. (v, county_count d v)) ` set ?vs"
    by (simp add: vc set_unique count_dropna)
  have pos: "\<And>v. v \<in> set ?vs \<Longrightarrow> 0 < county_count d v"
    using count_list_0_iff [of ?vs] by (fastforce simp: count_dropna)
  have a: "list_all (\<lambda>cn. 0 < snd cn \<and> snd cn = county_count d (fst cn))
             (value_counts (map COUNTY d))"
    unfolding list_all_iff set_vc using pos by auto
  have mem: "\<And>r c. r \<in> set d \<Longrightarrow> COUNTY r = Some c \<Longrightarrow> c \<in> set ?vs"
    by (force simp: set_dropna)
  have b: "list_all (\<lambda>r. case COUNTY r of None \<Rightarrow> True
                       | Some c \<Rightarrow> (c, county_count d c) \<in> set (value_counts (map COUNTY d))) d"
    unfolding list_all_iff set_vc using mem by (auto split: option.splits)
  from d s a b show ?thesis
    by (simp add: aggregates_by_county_def)
qed

lemma county_chart_unfold:
  assumes "truthy cert" and "filter (\<lambda>r. Some (CERT r) = cert) locs \<noteq> []"
  shows "update_county_chart locs cert st cs =
     (let active = active_state_filter st cs;
          branches = filter (\<lambda>r. Some (CERT r) = cert) locs;
          county_data = (if truthy active then filter (\<lambda>r. STNAME r = active) branches
                         else branches)
      in if county_data = [] then Empty [''No branches in '' @ py_str_opt active]
         else Bar (if truthy active
                   then ''Branches by County ('' @ py_str_opt active @ '')''
                   else ''Branches by County (All States)'')
                (take 15 (value_counts (map COUNTY county_data))))"
proof -
  from assms(1) obtain c where c: "cert = Some c" "c \<noteq> []"
    by (auto simp: truthy_def split: option.splits)
  with assms(2) show ?thesis
    by (simp add: update_county_chart_def Let_def)
qed

lemma county_chart_empty:
  "\<not> truthy cert \<or> filter (\<lambda>r. Some (CERT r) = cert) locs = [] \<Longrightarrow>
   update_county_chart locs cert st cs = Empty []"
  by (auto simp: update_county_chart_def truthy_def Let_def split: option.splits)

lemma county_chart_cong:
  "active_state_filter st cs = active_state_filter st' cs' \<Longrightarrow>
   update_county_chart locs cert st cs = update_county_chart locs cert st' cs'"
  by (simp add: update_county_chart_def Let_def split: option.split)

text \<open>
  C8. When the state override is set (a non-empty string \<open>v\<close>), the county chart is the
  same whatever the state dropdown holds, and it is the county chart, under the name
  \<open>v\<close>, of the branches of the institution whose state is \<open>v\<close>. When the override is
  unset, the chart is the county chart of the branches of the institution whose state is
  the state dropdown, under that name, unless the dropdown is \<^verbatim>\<open>ALL\<close> (or empty): then
  it is the county chart of all branches of the institution. Without an institution, or
  for one without branches, the figure is empty.
\<close>

theorem county_chart_effective_state:
  "(v \<noteq> [] \<longrightarrow>
      update_county_chart locs cert st (Some v) = update_county_chart locs cert st' (Some v))
   \<and> (truthy cert \<and> filter (\<lambda>r. Some (CERT r) = cert) locs \<noteq> [] \<longrightarrow>
        (v \<noteq> [] \<longrightarrow>
           county_chart_of (update_county_chart locs cert st (Some v)) v
             (filter (\<lambda>r. Some (CERT r) = cert \<and> STNAME r = Some v) locs))
        \<and> (\<not> truthy cs \<and> st \<noteq> ''ALL'' \<and> st \<noteq> [] \<longrightarrow>
             county_chart_of (update_county_chart locs cert st cs) st
               (filter (\<lambda>r. Some (CERT r) = cert \<and> STNAME r = Some st) locs))
        \<and> (\<not> truthy cs \<and> (st = ''ALL'' \<or> st = []) \<longrightarrow>
             county_chart_of (update_county_chart locs cert st cs) ''All States''
               (filter (\<lambda>r. Some (CERT r) = cert) locs)))
   \<and> (\<not> truthy cert \<or> filter (\<lambda>r. Some (CERT r) = cert) locs = [] \<longrightarrow>
        update_county_chart locs cert st cs = Empty [])"
proof (intro conjI impI)
  assume "v \<noteq> []"
  then have "active_state_filter st (Some v) = active_state_filter st' (Some v)"
    by (simp add: active_state_filter_def truthy_def)
  then show "update_county_chart locs cert st (Some v)
      = update_county_chart locs cert st' (Some v)"
    by (rule county_chart_cong)
next
  assume sel: "truthy cert \<and> filter (\<lambda>r. Some (CERT r) = cert) locs \<noteq> []" and v: "v \<noteq> []"
  from v have act: "active_state_filter st (Some v) = Some v" "truthy (Some v)"
    by (simp_all add: active_state_filter_def truthy_def)
  show "county_chart_of (update_county_chart locs cert st (Some v)) v
          (filter (\<lambda>r. Some (CERT r) = cert \<and> STNAME r = Some v) locs)"
    using sel act value_counts_aggregates
    by (auto simp: county_chart_unfold county_chart_of_def Let_def py_str_opt_def)
next
  assume sel: "truthy cert \<and> filter (\<lambda>r. Some (CERT r) = cert) locs \<noteq> []"
    and u: "\<not> truthy cs \<and> st \<noteq> ''ALL'' \<and> st \<noteq> []"
  then have act: "active_state_filter st cs = Some st" "truthy (Some st)"
    by (simp_all add: active_state_filter_def truthy_def)
  show "county_chart_of (update_county_chart locs cert st cs) st
          (filter (\<lambda>r. Some (CERT r) = cert \<and> STNAME r = Some st) locs)"
    using sel act value_counts_aggregates
    by (auto simp: county_chart_unfold county_chart_of_def Let_def py_str_opt_def)
next
  assume sel: "truthy cert \<and> filter (\<lambda>r. Some (CERT r) = cert) locs \<noteq> []"
    and u: "\<not> truthy cs \<and> (st = ''ALL'' \<or> st = [])"
  then have act: "\<not> truthy (active_state_filter st cs)"
    by (auto simp: active_state_filter_def truthy_def)
  show "county_chart_of (update_county_chart locs cert st cs) ''All States''
          (filter (\<lambda>r. Some (CERT r) = cert) locs)"
    using sel act value_counts_aggregates
    by (auto simp: county_chart_unfold county_chart_of_def Let_def)
next
  assume "\<not> truthy cert \<or> filter (\<lambda>r. Some (CERT r) = cert) locs = []"
  then show "update_county_chart locs cert st cs = Empty []"
    by (rule county_chart_empty)
qed

text \<open>
  The example bank: the override on Texas gives the chart of its three branches in
  Texas, with the dropdown on Oklahoma as with the dropdown on \<^verbatim>\<open>ALL\<close>; without an
  override the dropdown on Oklahoma gives the chart of its branch in Oklahoma, and the
  dropdown on \<^verbatim>\<open>ALL\<close> the chart of its four branches.
\<close>

theorem county_chart_effective_state_witness:
  "truthy (Some ''628'') \<and> \<not> truthy None
   \<and> filter (\<lambda>r. Some (CERT r) = Some ''628'' \<and> STNAME r = Some ''TX'') example_locations
     = [example_branch ''628'' (Some ''TX'') (Some ''Harris''),
        example_branch ''628'' (Some ''TX'') (Some ''Dallas''),
        example_branch ''628'' (Some ''TX'') (Some ''Harris'')]
   \<and> update_county_chart example_locations (Some ''628'') ''OK'' (Some ''TX'')
     = Bar ''Branches by County (TX)'' [(''Harris'', 2), (''Dallas'', 1)]
   \<and> update_county_chart example_locations (Some ''628'') ''ALL'' (Some ''TX'')
     = Bar ''Branches by County (TX)'' [(''Harris'', 2), (''Dallas'', 1)]
   \<and> county_chart_of (Bar ''Branches by County (TX)'' [(''Harris'', 2), (''Dallas'', 1)])
       ''TX'' [example_branch ''628'' (Some ''TX'') (Some ''Harris''),
               example_branch ''628'' (Some ''TX'') (Some ''Dallas''),
               example_branch ''628'' (Some ''TX'') (Some ''Harris'')]
   \<and> update_county_chart example_locations (Some ''628'') ''OK'' None
     = Bar ''Branches by County (OK)'' [(''Tulsa'', 1)]
   \<and> county_chart_of (Bar ''Branches by County (OK)'' [(''Tulsa'', 1)])
       ''OK'' [example_branch ''628'' (Some ''OK'') (Some ''Tulsa'')]
   \<and> update_county_chart example_locations (Some ''628'') ''ALL'' None
     = Bar ''Branches by County (All States)'' [(''Harris'', 2), (''Dallas'', 1), (''Tulsa'', 1)]
   \<and> update_county_chart example_locations (Some ''628'') ''TX'' (Some ''NM'')
     = Empty [''No branches in NM'']
   \<and> update_county_chart example_locations None ''TX'' (Some ''TX'') = Empty []"
proof -
  have sel: "truthy (Some ''628'')" and unsel: "\<not> truthy None"
    by (simp_all add: truthy_def)
  have br: "filter (\<lambda>r. Some (CERT r) = Some ''628'') example_locations \<noteq> []"
    by code_simp
  have tx_rows: "filter (\<lambda>r. Some (CERT r) = Some ''628'' \<and> STNAME r = Some ''TX'')
        example_locations
     = [example_branch ''628'' (Some ''TX'') (Some ''Harris''),
        example_branch ''628'' (Some ''TX'') (Some ''Dallas''),
        example_branch ''628'' (Some ''TX'') (Some ''Harris'')]"
    by code_simp
  have ok_rows: "filter (\<lambda>r. Some (CERT r) = Some ''628'' \<and> STNAME r = Some ''OK'')
        example_locations
     = [example_branch ''628'' (Some ''OK'') (Some ''Tulsa'')]"
    by code_simp
  have tx: "update_county_chart example_locations (Some ''628'') ''OK'' (Some ''TX'')
     = Bar ''Branches by County (TX)'' [(''Harris'', 2), (''Dallas'', 1)]"
    by code_simp
  have ok: "update_county_chart example_locations (Some ''628'') ''OK'' None
     = Bar ''Branches by County (OK)'' [(''Tulsa'', 1)]"
    by code_simp
  have all: "update_county_chart example_locations (Some ''628'') ''ALL'' None
     = Bar ''Branches by County (All States)'' [(''Harris'', 2), (''Dallas'', 1), (''Tulsa'', 1)]"
    by code_simp
  have nm: "update_county_chart example_locations (Some ''628'') ''TX'' (Some ''NM'')
     = Empty [''No branches in NM'']"
    by code_simp
  have ne: "''TX'' \<noteq> []" and ok_ne: "''OK'' \<noteq> ''ALL'' \<and> ''OK'' \<noteq> []"
    by simp_all
  note th = county_chart_effective_state
      [of "''TX''" example_locations "Some ''628''" "''OK''" "''ALL''" None]
  from th ne have same: "update_county_chart example_locations (Some ''628'') ''OK''
       (Some ''TX'')
     = update_county_chart example_locations (Some ''628'') ''ALL'' (Some ''TX'')"
    by blast
  from th ne sel br have c1: "county_chart_of
       (update_county_chart example_locations (Some ''628'') ''OK'' (Some ''TX'')) ''TX''
       (filter (\<lambda>r. Some (CERT r) = Some ''628'' \<and> STNAME r = Some ''TX'') example_locations)"
    by blast
  from th sel br unsel ok_ne have c2: "county_chart_of
       (update_county_chart example_locations (Some ''628'') ''OK'' None) ''OK''
       (filter (\<lambda>r. Some (CERT r) = Some ''628'' \<and> STNAME r = Some ''OK'') example_locations)"
    by blast
  from county_chart_effective_state
      [of "''TX''" example_locations None "''TX''" "''ALL''" "Some ''TX''"] unsel
  have e: "update_county_chart example_locations None ''TX'' (Some ''TX'') = Empty []"
    by blast
  from c1 have c1': "county_chart_of
       (Bar ''Branches by County (TX)'' [(''Harris'', 2), (''Dallas'', 1)]) ''TX''
       [example_branch ''628'' (Some ''TX'') (Some ''Harris''),
        example_branch ''628'' (Some ''TX'') (Some ''Dallas''),
        example_branch ''628'' (Some ''TX'') (Some ''Harris'')]"
    unfolding tx tx_rows .
  from c2 have c2': "county_chart_of (Bar ''Branches by County (OK)'' [(''Tulsa'', 1)])
       ''OK'' [example_branch ''628'' (Some ''OK'') (Some ''Tulsa'')]"
    unfolding ok ok_rows .
  from same have tx2: "update_county_chart example_locations (Some ''628'') ''ALL''
       (Some ''TX'') = Bar ''Branches by County (TX)'' [(''Harris'', 2), (''Dallas'', 1)]"
    unfolding tx by (rule sym)
  show ?thesis
    by (intro conjI sel unsel tx_rows tx tx2 c1' ok c2' all nm e)
qed

text \<open>
  C9. Two filter states that agree on the institution, on the state dropdown and on the
  state override give the same county chart, whatever their county dropdowns and county
  overrides hold.
\<close>

theorem county_chart_ignores_county_inputs:
  "institutionSelector fs = institutionSelector fs' \<Longrightarrow>
   stateSelector fs = stateSelector fs' \<Longrightarrow>
   chartStateOverride fs = chartStateOverride fs' \<Longrightarrow>
   county_chart_view locs fs = county_chart_view locs fs'"
  by (simp add: county_chart_view_def)

text \<open>Two such states of the example bank, and the chart both give.\<close>

theorem county_chart_ignores_county_inputs_witness:
  "county_chart_view example_locations
     \<lparr>stateSelector = ''TX'', countySelector = ''ALL'', institutionSelector = Some ''628'',
      chartStateOverride = None, chartCountyOverride = None\<rparr>
   = county_chart_view example_locations
     \<lparr>stateSelector = ''TX'', countySelector = ''Harris'', institutionSelector = Some ''628'',
      chartStateOverride = None, chartCountyOverride = Some ''Dallas''\<rparr>
   \<and> county_chart_view example_locations
     \<lparr>stateSelector = ''TX'', countySelector = ''Harris'', institutionSelector = Some ''628'',
      chartStateOverride = None, chartCountyOverride = Some ''Dallas''\<rparr>
   = Bar ''Branches by County (TX)'' [(''Harris'', 2), (''Dallas'', 1)]"
proof -
  have ev: "county_chart_view example_locations
     \<lparr>stateSelector = ''TX'', countySelector = ''Harris'', institutionSelector = Some ''628'',
      chartStateOverride = None, chartCountyOverride = Some ''Dallas''\<rparr>
   = Bar ''Branches by County (TX)'' [(''Harris'', 2), (''Dallas'', 1)]"
    by code_simp
  have "county_chart_view example_locations
     \<lparr>stateSelector = ''TX'', countySelector = ''ALL'', institutionSelector = Some ''628'',
      chartStateOverride = None, chartCountyOverride = None\<rparr>
   = county_chart_view example_locations
     \<lparr>stateSelector = ''TX'', countySelector = ''Harris'', institutionSelector = Some ''628'',
      chartStateOverride = None, chartCountyOverride = Some ''Dallas''\<rparr>"
    by (rule county_chart_ignores_county_inputs) simp_all
  with ev show ?thesis by simp
qed

end
